theory Spec2Isabelle
  imports Complex_Main "HOL-Library.Word"
begin

section \<open>Media codec utilities\<close>

text \<open>
  Bytes of a \<open>Uint8Array\<close> are 8-bit words, elements of an \<open>Int16Array\<close> are 16-bit
  words read as two's complement. The binary string that \<open>atob\<close> returns and \<open>btoa\<close>
  takes is the list of its character codes. The browser's \<open>atob\<close> and \<open>btoa\<close> are not
  part of the source: they are parameters of the model, \<open>atob\<close> returning \<open>None\<close> where
  the browser throws.
\<close>

type_synonym byte = "8 word"
type_synonym int16 = "16 word"
type_synonym binary_string = "nat list"

datatype js_error = TypeError | RangeError | NotSupportedError | InvalidCharacterError

definition decode :: "(string \<Rightarrow> binary_string option) \<Rightarrow> string \<Rightarrow> js_error + byte list" where
  "decode atob base64 =
     (case atob base64 of
        None \<Rightarrow> Inl InvalidCharacterError
      | Some binaryString \<Rightarrow> Inr (map of_nat binaryString))"

definition encode :: "(binary_string \<Rightarrow> string) \<Rightarrow> byte list \<Rightarrow> string" where
  "encode btoa bytes = btoa (map unat bytes)"

text \<open>
  \<open>new Int16Array(data.buffer)\<close> views the bytes in pairs, low byte first (the byte
  order of every platform the component runs on), and throws a \<open>RangeError\<close> when the
  byte length is odd.
\<close>

fun int16_view :: "byte list \<Rightarrow> int16 list" where
  "int16_view (lo # hi # bs) = (ucast lo + 256 * ucast hi) # int16_view bs"
| "int16_view bs = []"

definition Int16Array :: "byte list \<Rightarrow> js_error + int16 list" where
  "Int16Array bs = (if odd (length bs) then Inl RangeError else Inr (int16_view bs))"

text \<open>
  An \<open>AudioBuffer\<close>: its channels, its length in sample frames and its sample rate.
  \<open>createBuffer\<close> rejects a buffer without channels or without frames.
\<close>

record audio_buffer =
  channelData :: "real list list"
  frameCount :: nat
  sampleRate :: nat

definition duration :: "audio_buffer \<Rightarrow> real" where
  "duration b = real (frameCount b) / real (sampleRate b)"

definition createBuffer :: "nat \<Rightarrow> nat \<Rightarrow> nat \<Rightarrow> js_error + audio_buffer" where
  "createBuffer numChannels n rate =
     (if numChannels = 0 \<or> n = 0 \<or> rate = 0 then Inl NotSupportedError
      else Inr \<lparr>channelData = replicate numChannels (replicate n 0),
                frameCount = n, sampleRate = rate\<rparr>)"

definition decodeAudioData :: "byte list \<Rightarrow> nat \<Rightarrow> nat \<Rightarrow> js_error + audio_buffer" where
  "decodeAudioData bs rate numChannels =
     (case Int16Array bs of
        Inl e \<Rightarrow> Inl e
      | Inr dataInt16 \<Rightarrow>
          (case createBuffer numChannels (length dataInt16 div numChannels) rate of
             Inl e \<Rightarrow> Inl e
           | Inr buffer \<Rightarrow>
               Inr (buffer\<lparr>channelData :=
                     map (\<lambda>channel.
                            map (\<lambda>i. real_of_int (sint (dataInt16 ! (i * numChannels + channel)))
                                        / 32768)
                                [0 ..< frameCount buffer])
                         [0 ..< numChannels]\<rparr>)))"

section \<open>Inbound events\<close>

text \<open>
  The shape of a \<open>LiveServerMessage\<close> as the handler reads it. Every field the handler
  reaches through \<open>?.\<close> or tests for truthiness is optional; \<open>None\<close> is \<open>undefined\<close>.
\<close>

record transcription =
  "text" :: "string option"

record blob =
  data :: "string option"

record part =
  inlineData :: "blob option"

record content =
  parts :: "part list option"

record live_server_content =
  outputTranscription :: "transcription option"
  inputTranscription :: "transcription option"
  turnComplete :: "bool option"
  modelTurn :: "content option"
  interrupted :: "bool option"

record live_server_message =
  serverContent :: "live_server_content option"

definition truthy :: "bool option \<Rightarrow> bool" where
  "truthy b = (b = Some True)"

text \<open>\<open>s += t\<close> appends the string \<open>undefined\<close> when \<open>t\<close> is undefined.\<close>

definition js_string :: "string option \<Rightarrow> string" where
  "js_string t = (case t of None \<Rightarrow> ''undefined'' | Some s \<Rightarrow> s)"

section \<open>Inbound router and playback scheduler\<close>

datatype speaker = user | assistant

record practice_transcription =
  entry_text :: string
  role :: speaker
  timestamp :: nat

record display =
  transcriptions :: "practice_transcription list"

text \<open>
  What one session's \<open>onmessage\<close> handler reads and writes: the two locals
  \<open>currentOutText\<close> and \<open>currentInText\<close> of \<open>startSession\<close>, the \<open>transcriptions\<close>
  state, \<open>nextStartTimeRef\<close>, and the buffer sources started on the output context, each
  with the time given to \<open>start\<close>. Times on the output clock are real numbers of seconds.
\<close>

record router = display +
  currentOutText :: string
  currentInText :: string
  nextStartTime :: real
  started :: "(real \<times> audio_buffer) list"

text \<open>
  \<open>setTranscriptions(prev => [...prev, {role, text: currentInText, timestamp: Date.now()}])\<close>
  hands React a function that reads the local variable and the clock when React calls
  it. When React calls it is not in the source and is a parameter:
  \<^item> \<open>Synchronous\<close>: every updater runs inside the call of the setter;
  \<^item> \<open>EagerFirst\<close>: the first updater of a handler run runs inside the call of the
    setter (no update is pending and the state is computed eagerly), every later one in
    the next render, after the synchronous part of the handler;
  \<^item> \<open>Batched\<close>: every updater runs in the next render.
  The updaters of a handler run are numbered from 0 in the order of the setter calls,
  which is the order in which React applies them; \<open>now k\<close> is the reading of
  \<open>Date.now()\<close> that updater \<open>k\<close> takes.
\<close>

datatype setter_mode = Synchronous | EagerFirst | Batched

definition runs_in_call :: "setter_mode \<Rightarrow> nat \<Rightarrow> bool" where
  "runs_in_call mode k =
     (case mode of Synchronous \<Rightarrow> True | EagerFirst \<Rightarrow> k = 0 | Batched \<Rightarrow> False)"

type_synonym date_now = "nat \<Rightarrow> nat"

datatype updater = AppendEntry speaker

definition pending_text :: "speaker \<Rightarrow> router \<Rightarrow> string" where
  "pending_text r s = (case r of user \<Rightarrow> currentInText s | assistant \<Rightarrow> currentOutText s)"

fun run_updater :: "date_now \<Rightarrow> nat \<times> updater \<Rightarrow> router \<Rightarrow> router" where
  "run_updater now (k, AppendEntry r) s =
     s\<lparr>transcriptions := transcriptions s
          @ [\<lparr>entry_text = pending_text r s, role = r, timestamp = now k\<rparr>]\<rparr>"

definition run_updaters :: "date_now \<Rightarrow> (nat \<times> updater) list \<Rightarrow> router \<Rightarrow> router" where
  "run_updaters now us s = fold (run_updater now) us s"

definition transcription_logic :: "live_server_message \<Rightarrow> router \<Rightarrow> router" where
  "transcription_logic message s =
     (case serverContent message of
        None \<Rightarrow> s
      | Some sc \<Rightarrow>
          (case outputTranscription sc of
             Some t \<Rightarrow> s\<lparr>currentOutText := currentOutText s @ js_string (text t)\<rparr>
           | None \<Rightarrow>
               (case inputTranscription sc of
                  Some t \<Rightarrow> s\<lparr>currentInText := currentInText s @ js_string (text t)\<rparr>
                | None \<Rightarrow> s)))"

definition is_turnComplete :: "live_server_message \<Rightarrow> bool" where
  "is_turnComplete message =
     (case serverContent message of None \<Rightarrow> False | Some sc \<Rightarrow> truthy (turnComplete sc))"

definition turn_updaters :: "router \<Rightarrow> updater list" where
  "turn_updaters s =
     (if currentInText s \<noteq> [] then [AppendEntry user] else [])
     @ (if currentOutText s \<noteq> [] then [AppendEntry assistant] else [])"

definition clear_buffers :: "router \<Rightarrow> router" where
  "clear_buffers s = s\<lparr>currentInText := [], currentOutText := []\<rparr>"

text \<open>
  The setter calls of lines 164 and 165, then the clearing of lines 166 and 167: the
  updaters that run inside their call read the buffers before the clearing, the others
  read them after it.
\<close>

definition turn_complete :: "setter_mode \<Rightarrow> date_now \<Rightarrow> live_server_message \<Rightarrow> router \<Rightarrow> router" where
  "turn_complete mode now message s =
     (if is_turnComplete message then
        (let calls = enumerate 0 (turn_updaters s);
             s1 = run_updaters now (filter (\<lambda>(k, u). runs_in_call mode k) calls) s;
             s2 = clear_buffers s1
         in run_updaters now (filter (\<lambda>(k, u). \<not> runs_in_call mode k) calls) s2)
      else s)"

text \<open>
  \<open>message.serverContent?.modelTurn?.parts[0]?.inlineData?.data\<close>: every step but the
  read of \<open>parts[0]\<close> short-circuits on \<open>undefined\<close>; indexing an undefined \<open>parts\<close> throws.
\<close>

definition audioData :: "live_server_message \<Rightarrow> js_error + string option" where
  "audioData message =
     (case serverContent message of
        None \<Rightarrow> Inr None
      | Some sc \<Rightarrow>
          (case modelTurn sc of
             None \<Rightarrow> Inr None
           | Some mt \<Rightarrow>
               (case parts mt of
                  None \<Rightarrow> Inl TypeError
                | Some ps \<Rightarrow>
                    (case ps of
                       [] \<Rightarrow> Inr None
                     | p # _ \<Rightarrow>
                         (case inlineData p of
                            None \<Rightarrow> Inr None
                          | Some b \<Rightarrow> Inr (data b))))))"

definition decode_payload :: "(string \<Rightarrow> binary_string option) \<Rightarrow> string \<Rightarrow> js_error + audio_buffer" where
  "decode_payload atob base64 =
     (case decode atob base64 of
        Inl e \<Rightarrow> Inl e
      | Inr bs \<Rightarrow> decodeAudioData bs 24000 1)"

definition audio_playback ::
  "(string \<Rightarrow> binary_string option) \<Rightarrow> real \<Rightarrow> string \<Rightarrow> router \<Rightarrow> router \<times> js_error option" where
  "audio_playback atob currentTime base64 s =
     (let s1 = s\<lparr>nextStartTime := max (nextStartTime s) currentTime\<rparr>
      in case decode_payload atob base64 of
           Inl e \<Rightarrow> (s1, Some e)
         | Inr buffer \<Rightarrow>
             (s1\<lparr>started := started s1 @ [(nextStartTime s1, buffer)],
                 nextStartTime := nextStartTime s1 + duration buffer\<rparr>, None))"

definition is_interrupted :: "live_server_message \<Rightarrow> bool" where
  "is_interrupted message =
     (case serverContent message of None \<Rightarrow> False | Some sc \<Rightarrow> truthy (interrupted sc))"

definition interruption :: "live_server_message \<Rightarrow> router \<Rightarrow> router" where
  "interruption message s = (if is_interrupted message then s\<lparr>nextStartTime := 0\<rparr> else s)"

text \<open>
  The handler, run as one step when a message arrives: \<open>currentTime\<close> is the reading of
  the output clock, \<open>now\<close> the readings of \<open>Date.now()\<close>. It returns the state it leaves
  and the error it threw, if any; what it wrote before throwing stays written.
\<close>

definition onmessage ::
  "setter_mode \<Rightarrow> (string \<Rightarrow> binary_string option) \<Rightarrow> real \<Rightarrow> date_now \<Rightarrow> live_server_message
     \<Rightarrow> router \<Rightarrow> router \<times> js_error option" where
  "onmessage mode atob currentTime now message s =
     (let s1 = transcription_logic message s;
          s2 = turn_complete mode now message s1
      in case audioData message of
           Inl e \<Rightarrow> (s2, Some e)
         | Inr None \<Rightarrow> (interruption message s2, None)
         | Inr (Some base64) \<Rightarrow>
             (if base64 = [] then (interruption message s2, None)
              else (case audio_playback atob currentTime base64 s2 of
                      (s3, Some e) \<Rightarrow> (s3, Some e)
                    | (s3, None) \<Rightarrow> (interruption message s3, None))))"

text \<open>The message that carries an interruption signal and nothing else.\<close>

definition no_content :: live_server_content where
  "no_content = \<lparr>outputTranscription = None, inputTranscription = None, turnComplete = None,
                  modelTurn = None, interrupted = None\<rparr>"

definition interruption_signal :: live_server_message where
  "interruption_signal = \<lparr>serverContent = Some (no_content\<lparr>interrupted := Some True\<rparr>)\<rparr>"

definition turn_complete_signal :: live_server_message where
  "turn_complete_signal = \<lparr>serverContent = Some (no_content\<lparr>turnComplete := Some True\<rparr>)\<rparr>"

text \<open>
  Messages arrive one at a time; each is handled to its end before the next one. An
  arrival is the reading of the output clock, the readings of \<open>Date.now()\<close> and the
  message. An error thrown by one handler run rejects that run's promise and does not
  stop the session: the next message is handled on the state the failed run left.
\<close>

type_synonym arrival = "real \<times> date_now \<times> live_server_message"

fun run :: "setter_mode \<Rightarrow> (string \<Rightarrow> binary_string option) \<Rightarrow> arrival list \<Rightarrow> router \<Rightarrow> router" where
  "run mode atob [] s = s"
| "run mode atob ((currentTime, now, message) # es) s =
     run mode atob es (fst (onmessage mode atob currentTime now message s))"

definition idle_router :: router where
  "idle_router = \<lparr>transcriptions = [], currentOutText = [], currentInText = [],
                   nextStartTime = 0, started = []\<rparr>"

subsection \<open>Vocabulary of the properties\<close>

text \<open>The buffer an inline audio payload decodes to, when the message has one that decodes.\<close>

definition payload :: "(string \<Rightarrow> binary_string option) \<Rightarrow> live_server_message \<Rightarrow> audio_buffer option" where
  "payload atob message =
     (case audioData message of
        Inr (Some base64) \<Rightarrow>
          (if base64 = [] then None
           else (case decode_payload atob base64 of Inr buffer \<Rightarrow> Some buffer | Inl e \<Rightarrow> None))
      | _ \<Rightarrow> None)"

text \<open>
  The speakers a turn boundary adds an entry for, and the entries it adds: entry \<open>k\<close>
  has the text of its speaker's buffer when its updater runs inside the call of the
  setter, and the empty text the cleared buffer has when it runs later.
\<close>

definition flushed_speakers :: "router \<Rightarrow> speaker list" where
  "flushed_speakers s =
     (if currentInText s \<noteq> [] then [user] else [])
     @ (if currentOutText s \<noteq> [] then [assistant] else [])"

definition flushed :: "setter_mode \<Rightarrow> date_now \<Rightarrow> router \<Rightarrow> practice_transcription list" where
  "flushed mode now s =
     map (\<lambda>(k, r). \<lparr>entry_text = (if runs_in_call mode k then pending_text r s else []),
                      role = r, timestamp = now k\<rparr>)
         (enumerate 0 (flushed_speakers s))"

text \<open>
  The fragment a message adds to the assistant's buffer and to the user's buffer: the
  output transcription when there is one, the input transcription only when there is no
  output transcription.
\<close>

definition out_fragment :: "live_server_message \<Rightarrow> string" where
  "out_fragment message =
     (case serverContent message of
        None \<Rightarrow> []
      | Some sc \<Rightarrow> (case outputTranscription sc of None \<Rightarrow> [] | Some t \<Rightarrow> js_string (text t)))"

definition in_fragment :: "live_server_message \<Rightarrow> string" where
  "in_fragment message =
     (case serverContent message of
        None \<Rightarrow> []
      | Some sc \<Rightarrow>
          (case outputTranscription sc of
             Some t \<Rightarrow> []
           | None \<Rightarrow> (case inputTranscription sc of None \<Rightarrow> [] | Some t \<Rightarrow> js_string (text t))))"

text \<open>
  Start times that are exactly contiguous from a time \<open>c\<close> for buffers of the given
  durations, and the condition that each payload arrives no later than the cursor
  stands: \<open>on_time c tds\<close> for arrivals \<open>(t, d)\<close> at clock \<open>t\<close> of duration \<open>d\<close>.
\<close>

fun contiguous :: "real \<Rightarrow> real list \<Rightarrow> real list" where
  "contiguous c [] = []"
| "contiguous c (d # ds) = c # contiguous (c + d) ds"

fun on_time :: "real \<Rightarrow> (real \<times> real) list \<Rightarrow> bool" where
  "on_time c [] = True"
| "on_time c ((t, d) # tds) = (t \<le> c \<and> on_time (c + d) tds)"

subsection \<open>Base64, for concrete payloads\<close>

text \<open>
  The coding \<open>atob\<close> implements (the forgiving Base64 decoding of the HTML standard),
  to evaluate the handler on concrete payloads.
\<close>

definition base64_alphabet :: string where
  "base64_alphabet = ''ABCDEFGHIJKLMNOPQRSTUVWXYZabcdefghijklmnopqrstuvwxyz0123456789+/''"

fun index_of :: "'a \<Rightarrow> 'a list \<Rightarrow> nat option" where
  "index_of x [] = None"
| "index_of x (y # ys) = (if x = y then Some 0 else map_option (\<lambda>n. n + 1) (index_of x ys))"

fun sextets :: "string \<Rightarrow> nat list option" where
  "sextets [] = Some []"
| "sextets (c # cs) =
     (case index_of c base64_alphabet of
        None \<Rightarrow> None
      | Some n \<Rightarrow> map_option ((#) n) (sextets cs))"

fun octets :: "nat list \<Rightarrow> nat list" where
  "octets (a # b # c # d # r) =
     (a * 4 + b div 16) # ((b mod 16) * 16 + c div 4) # ((c mod 4) * 64 + d) # octets r"
| "octets [a, b, c] = [a * 4 + b div 16, (b mod 16) * 16 + c div 4]"
| "octets [a, b] = [a * 4 + b div 16]"
| "octets r = []"

definition strip_padding :: "string \<Rightarrow> string" where
  "strip_padding s =
     (if length s mod 4 = 0 \<and> s \<noteq> [] \<and> last s = CHR ''=''
      then (if butlast s \<noteq> [] \<and> last (butlast s) = CHR ''=''
            then butlast (butlast s) else butlast s)
      else s)"

definition base64_atob :: "string \<Rightarrow> binary_string option" where
  "base64_atob s =
     (let t = strip_padding
                (filter (\<lambda>c. c \<notin> set [CHR '' '', CHR 0x09, CHR 0x0A, CHR 0x0C, CHR 0x0D]) s)
      in if length t mod 4 = 1 then None else map_option octets (sextets t))"

text \<open>Two sample frames, \<open>256\<close> and \<open>-254\<close>: a buffer of \<open>2 / 24000\<close> seconds.\<close>

definition two_frames :: string where
  "two_frames = ''AAEC/w==''"

definition audio_message :: "string \<Rightarrow> live_server_message" where
  "audio_message base64 =
     \<lparr>serverContent = Some (no_content\<lparr>modelTurn :=
         Some \<lparr>parts = Some [\<lparr>inlineData = Some \<lparr>data = Some base64\<rparr>\<rparr>]\<rparr>\<rparr>)\<rparr>"

text \<open>A model turn without \<open>parts\<close>, in a message that also signals an interruption.\<close>

definition model_turn_without_parts :: live_server_message where
  "model_turn_without_parts =
     \<lparr>serverContent = Some (no_content\<lparr>modelTurn := Some \<lparr>parts = None\<rparr>,
                                          interrupted := Some True\<rparr>)\<rparr>"

text \<open>The fragments of a run of arrivals, per speaker, in arrival order.\<close>

definition out_fragments :: "arrival list \<Rightarrow> string" where
  "out_fragments es = concat (map (\<lambda>(t, now, m). out_fragment m) es)"

definition in_fragments :: "arrival list \<Rightarrow> string" where
  "in_fragments es = concat (map (\<lambda>(t, now, m). in_fragment m) es)"

definition two_frames_buffer :: audio_buffer where
  "two_frames_buffer = \<lparr>channelData = [[1 / 128, - 127 / 16384]], frameCount = 2, sampleRate = 24000\<rparr>"

text \<open>Messages that carry transcription fragments.\<close>

definition output_fragment :: "string \<Rightarrow> live_server_message" where
  "output_fragment t =
     \<lparr>serverContent = Some (no_content\<lparr>outputTranscription := Some \<lparr>text = Some t\<rparr>\<rparr>)\<rparr>"

definition input_fragment :: "string \<Rightarrow> live_server_message" where
  "input_fragment t =
     \<lparr>serverContent = Some (no_content\<lparr>inputTranscription := Some \<lparr>text = Some t\<rparr>\<rparr>)\<rparr>"

definition both_fragments :: "string \<Rightarrow> string \<Rightarrow> live_server_message" where
  "both_fragments i out =
     \<lparr>serverContent = Some (no_content\<lparr>outputTranscription := Some \<lparr>text = Some out\<rparr>,
                                          inputTranscription := Some \<lparr>text = Some i\<rparr>\<rparr>)\<rparr>"

text \<open>A message with its interruption flag removed.\<close>

definition without_interruption :: "live_server_message \<Rightarrow> live_server_message" where
  "without_interruption message =
     message\<lparr>serverContent := map_option (\<lambda>sc. sc\<lparr>interrupted := None\<rparr>) (serverContent message)\<rparr>"

text \<open>A message that carries a payload and signals an interruption.\<close>

definition payload_with_interruption :: live_server_message where
  "payload_with_interruption =
     \<lparr>serverContent = Some (no_content\<lparr>modelTurn :=
         Some \<lparr>parts = Some [\<lparr>inlineData = Some \<lparr>data = Some two_frames\<rparr>\<rparr>]\<rparr>,
         interrupted := Some True\<rparr>)\<rparr>"

text \<open>A turn that ends with text pending for both speakers.\<close>

definition both_pending :: router where
  "both_pending = idle_router\<lparr>currentInText := ''hi'', currentOutText := ''yo''\<rparr>"

section \<open>Audio capture\<close>

text \<open>
  Storing a number into an \<open>Int16Array\<close> truncates it towards zero and wraps it modulo
  \<open>2 ^ 16\<close>. Samples are finite and are modelled as real numbers; the product with
  32768, a power of two, is exact.
\<close>

definition js_trunc :: "real \<Rightarrow> int" where
  "js_trunc x = (if 0 \<le> x then \<lfloor>x\<rfloor> else \<lceil>x\<rceil>)"

definition ToInt16 :: "real \<Rightarrow> int16" where
  "ToInt16 x = word_of_int (js_trunc x)"

text \<open>\<open>new Uint8Array(int16.buffer)\<close>: the bytes of the samples, low byte first.\<close>

fun uint8_view :: "int16 list \<Rightarrow> byte list" where
  "uint8_view [] = []"
| "uint8_view (w # ws) = ucast w # ucast (drop_bit 8 w) # uint8_view ws"

record media =
  media_data :: string
  mimeType :: string

definition pcmBlob :: "(binary_string \<Rightarrow> string) \<Rightarrow> real list \<Rightarrow> media" where
  "pcmBlob btoa inputData =
     \<lparr>media_data = encode btoa (uint8_view (map (\<lambda>x. ToInt16 (x * 32768)) inputData)),
      mimeType = ''audio/pcm;rate=16000''\<rparr>"

section \<open>Session lifecycle\<close>

text \<open>
  Every call of \<open>startSession\<close> has a number \<open>k\<close>, and so have the stream, the two audio
  contexts, the channel and the timer it creates. The component's state and refs are
  those of the source; \<open>phases\<close> records how far each call got, \<open>queued\<close> the media
  handed to \<open>sessionPromise.then\<close> before the promise settled, and \<open>effects\<close> the calls
  made on the browser and on the channel, in order. The handler of inbound messages is
  the one above, on the router's state. Constructing the client, the audio contexts and
  the script processor is taken to succeed.
\<close>

datatype audio_context = Input nat | Output nat

datatype effect =
    GetUserMedia nat
  | Connect nat
  | SetInterval nat
  | SendRealtimeInput nat media
  | CloseChannel nat
  | StopTracks nat
  | ClearInterval nat
  | CloseContext audio_context
  | Alert

datatype phase = AwaitingDevices | AwaitingOpen | Opened | Live | Failed

record component = display +
  isActive :: bool
  isConnecting :: bool
  sessionRef :: "nat option"
  streamRef :: "nat option"
  audioContextInRef :: "audio_context option"
  audioContextOutRef :: "audio_context option"
  frameIntervalRef :: "nat option"
  phases :: "phase list"
  queued :: "(nat \<times> media) list"
  effects :: "effect list"

definition idle :: component where
  "idle = \<lparr>transcriptions = [], isActive = False, isConnecting = False, sessionRef = None,
            streamRef = None, audioContextInRef = None, audioContextOutRef = None,
            frameIntervalRef = None, phases = [], queued = [], effects = []\<rparr>"

definition phase_of :: "component \<Rightarrow> nat \<Rightarrow> phase option" where
  "phase_of s k = (if k < length (phases s) then Some (phases s ! k) else None)"

text \<open>\<open>if (ref.current) release(ref.current)\<close>; a timer id is a number and 0 is falsy.\<close>

definition release :: "'a option \<Rightarrow> ('a \<Rightarrow> effect) \<Rightarrow> effect list" where
  "release r f = (case r of None \<Rightarrow> [] | Some x \<Rightarrow> [f x])"

definition stopSession :: "component \<Rightarrow> component" where
  "stopSession s =
     s\<lparr>isActive := False, isConnecting := False, sessionRef := None,
       effects := effects s
         @ release (sessionRef s) CloseChannel
         @ release (streamRef s) StopTracks
         @ release (if frameIntervalRef s = Some 0 then None else frameIntervalRef s) ClearInterval
         @ release (audioContextInRef s) CloseContext
         @ release (audioContextOutRef s) CloseContext\<rparr>"

text \<open>\<open>startSession\<close> up to its first \<open>await\<close>, the request for the devices.\<close>

definition startSession :: "nat \<Rightarrow> component \<Rightarrow> component" where
  "startSession now s =
     s\<lparr>isConnecting := True,
       transcriptions := [\<lparr>entry_text = ''Connecting to AI Interviewer...'', role = assistant,
                           timestamp = now\<rparr>],
       phases := phases s @ [AwaitingDevices],
       effects := effects s @ [GetUserMedia (length (phases s))]\<rparr>"

text \<open>From the granted stream to the second \<open>await\<close>, that of the session promise.\<close>

definition getUserMedia_resolved :: "nat \<Rightarrow> component \<Rightarrow> component" where
  "getUserMedia_resolved k s =
     s\<lparr>streamRef := Some k, audioContextInRef := Some (Input k),
       audioContextOutRef := Some (Output k),
       phases := (phases s)[k := AwaitingOpen],
       effects := effects s @ [Connect k]\<rparr>"

text \<open>The \<open>catch\<close> block, entered when either awaited promise is rejected.\<close>

definition startSession_catch :: "nat \<Rightarrow> component \<Rightarrow> component" where
  "startSession_catch k s =
     (let s' = stopSession s
      in s'\<lparr>phases := (phases s')[k := Failed], effects := effects s' @ [Alert]\<rparr>)"

definition onopen :: "nat \<Rightarrow> component \<Rightarrow> component" where
  "onopen k s =
     s\<lparr>isActive := True, isConnecting := False, frameIntervalRef := Some (Suc k),
       phases := (phases s)[k := Opened],
       effects := effects s @ [SetInterval (Suc k)]\<rparr>"

text \<open>
  The session promise resolves: \<open>sessionRef.current = await sessionPromise\<close> resumes, and
  the media waiting in \<open>then\<close> are sent in the order they were handed over.
\<close>

definition sessionPromise_resolved :: "nat \<Rightarrow> component \<Rightarrow> component" where
  "sessionPromise_resolved k s =
     s\<lparr>sessionRef := Some k,
       phases := (phases s)[k := Live],
       queued := filter (\<lambda>(j, m). j \<noteq> k) (queued s),
       effects := effects s
         @ map (\<lambda>(j, m). SendRealtimeInput j m) (filter (\<lambda>(j, m). j = k) (queued s))\<rparr>"

text \<open>\<open>sessionPromise.then(session => session.sendRealtimeInput({ media }))\<close>.\<close>

definition sendRealtimeInput :: "nat \<Rightarrow> media \<Rightarrow> component \<Rightarrow> component" where
  "sendRealtimeInput k m s =
     (case phase_of s k of
        Some Live \<Rightarrow> s\<lparr>effects := effects s @ [SendRealtimeInput k m]\<rparr>
      | Some Failed \<Rightarrow> s
      | _ \<Rightarrow> s\<lparr>queued := queued s @ [(k, m)]\<rparr>)"

definition onaudioprocess :: "(binary_string \<Rightarrow> string) \<Rightarrow> nat \<Rightarrow> real list \<Rightarrow> component \<Rightarrow> component" where
  "onaudioprocess btoa k inputData s = sendRealtimeInput k (pcmBlob btoa inputData) s"

text \<open>
  A tick of the video timer: \<open>frame\<close> is the Base64 part of the data URL of the frame,
  \<open>None\<close> when the canvas, the video element or the encoded blob is missing.
\<close>

definition frame_tick :: "nat \<Rightarrow> string option \<Rightarrow> component \<Rightarrow> component" where
  "frame_tick k frame s =
     (case frame of
        None \<Rightarrow> s
      | Some base64 \<Rightarrow> sendRealtimeInput k \<lparr>media_data = base64, mimeType = ''image/jpeg''\<rparr> s)"

definition onclose :: "component \<Rightarrow> component" where
  "onclose s = stopSession s"

definition onerror :: "component \<Rightarrow> component" where
  "onerror s = stopSession s"

text \<open>The events of the component's event loop, and the reaction to each.\<close>

datatype event =
    StartSession nat
  | StopSession
  | MediaGranted nat
  | MediaDenied nat
  | ChannelOpen nat
  | ConnectResolved nat
  | ConnectRejected nat
  | ChannelClose nat
  | ChannelError nat
  | AudioProcess nat "real list"
  | FrameTick nat "string option"

fun step :: "(binary_string \<Rightarrow> string) \<Rightarrow> event \<Rightarrow> component \<Rightarrow> component" where
  "step btoa (StartSession now) s = startSession now s"
| "step btoa StopSession s = stopSession s"
| "step btoa (MediaGranted k) s = getUserMedia_resolved k s"
| "step btoa (MediaDenied k) s = startSession_catch k s"
| "step btoa (ChannelOpen k) s = onopen k s"
| "step btoa (ConnectResolved k) s = sessionPromise_resolved k s"
| "step btoa (ConnectRejected k) s = startSession_catch k s"
| "step btoa (ChannelClose k) s = onclose s"
| "step btoa (ChannelError k) s = onerror s"
| "step btoa (AudioProcess k inputData) s = onaudioprocess btoa k inputData s"
| "step btoa (FrameTick k frame) s = frame_tick k frame s"

text \<open>
  When the browser and the channel can deliver an event: a completion answers a request
  that is outstanding, the audio callback fires while its processor exists and its
  context is not closed, the timer ticks until it is cleared.
\<close>

fun enabled :: "event \<Rightarrow> component \<Rightarrow> bool" where
  "enabled (StartSession now) s = True"
| "enabled StopSession s = True"
| "enabled (MediaGranted k) s = (phase_of s k = Some AwaitingDevices)"
| "enabled (MediaDenied k) s = (phase_of s k = Some AwaitingDevices)"
| "enabled (ChannelOpen k) s = (phase_of s k = Some AwaitingOpen)"
| "enabled (ConnectResolved k) s = (phase_of s k = Some Opened)"
| "enabled (ConnectRejected k) s = (phase_of s k = Some AwaitingOpen)"
| "enabled (ChannelClose k) s = (phase_of s k \<in> {Some Opened, Some Live})"
| "enabled (ChannelError k) s = (phase_of s k \<in> {Some AwaitingOpen, Some Opened, Some Live})"
| "enabled (AudioProcess k inputData) s =
     (phase_of s k \<in> {Some Opened, Some Live} \<and> CloseContext (Input k) \<notin> set (effects s))"
| "enabled (FrameTick k frame) s =
     (phase_of s k \<in> {Some Opened, Some Live} \<and> ClearInterval (Suc k) \<notin> set (effects s))"

fun exec :: "(binary_string \<Rightarrow> string) \<Rightarrow> event list \<Rightarrow> component \<Rightarrow> component" where
  "exec btoa [] s = s"
| "exec btoa (e # es) s = exec btoa es (step btoa e s)"

fun feasible :: "(binary_string \<Rightarrow> string) \<Rightarrow> event list \<Rightarrow> component \<Rightarrow> bool" where
  "feasible btoa [] s = True"
| "feasible btoa (e # es) s = (enabled e s \<and> feasible btoa es (step btoa e s))"

text \<open>
  \<open>close()\<close> on an audio context that is already closed returns a rejected promise: the
  contexts whose closing is rejected in a sequence of effects, given those \<open>cs\<close> closed before.
\<close>

fun rejected_closes :: "audio_context list \<Rightarrow> effect list \<Rightarrow> audio_context list" where
  "rejected_closes cs [] = []"
| "rejected_closes cs (CloseContext c # fx) =
     (if c \<in> set cs then c # rejected_closes cs fx else rejected_closes (c # cs) fx)"
| "rejected_closes cs (e # fx) = rejected_closes cs fx"

text \<open>The start control is rendered while the session is neither active nor connecting.\<close>

definition start_button_shown :: "component \<Rightarrow> bool" where
  "start_button_shown s = (\<not> isActive s \<and> \<not> isConnecting s)"

text \<open>The coding \<open>btoa\<close> implements.\<close>

fun base64_chars :: "nat list \<Rightarrow> string" where
  "base64_chars (a # b # c # r) =
     base64_alphabet ! (a div 4) # base64_alphabet ! ((a mod 4) * 16 + b div 16)
       # base64_alphabet ! ((b mod 16) * 4 + c div 64) # base64_alphabet ! (c mod 64)
       # base64_chars r"
| "base64_chars [a, b] =
     [base64_alphabet ! (a div 4), base64_alphabet ! ((a mod 4) * 16 + b div 16),
      base64_alphabet ! ((b mod 16) * 4), CHR ''='']"
| "base64_chars [a] =
     [base64_alphabet ! (a div 4), base64_alphabet ! ((a mod 4) * 16), CHR ''='', CHR ''='']"
| "base64_chars [] = []"

definition base64_btoa :: "binary_string \<Rightarrow> string" where
  "base64_btoa s = base64_chars (map (\<lambda>n. n mod 256) s)"

subsection \<open>Scenarios\<close>

text \<open>Event sequences on which the lifecycle is evaluated.\<close>

definition two_samples :: "real list" where
  "two_samples = [1 / 128, - 127 / 16384]"

definition started_and_stopped_twice :: "event list" where
  "started_and_stopped_twice =
     [StartSession 0, MediaGranted 0, ChannelOpen 0, ConnectResolved 0, StopSession, StopSession]"

definition stopped_while_requesting :: "event list" where
  "stopped_while_requesting =
     [StartSession 0, StopSession, MediaGranted 0, ChannelOpen 0, ConnectResolved 0,
      AudioProcess 0 two_samples]"

definition started_twice :: "event list" where
  "started_twice =
     [StartSession 0, StartSession 1, MediaGranted 0, MediaGranted 1, ChannelOpen 0,
      ChannelOpen 1, ConnectResolved 0, ConnectResolved 1]"

definition one_block_captured :: "event list" where
  "one_block_captured =
     [StartSession 0, MediaGranted 0, ChannelOpen 0, ConnectResolved 0,
      AudioProcess 0 two_samples]"

section \<open>Properties of the inbound router\<close>

subsection \<open>Auxiliary facts\<close>

lemmas handler_defs = onmessage_def transcription_logic_def turn_complete_def is_turnComplete_def
  truthy_def audioData_def interruption_def is_interrupted_def

lemma two_frames_payload:
  "decode_payload base64_atob two_frames
     = Inr \<lparr>channelData = [[1 / 128, - 127 / 16384]], frameCount = 2, sampleRate = 24000\<rparr>"
  by (simp add: two_frames_def decode_payload_def decodeAudioData_def Int16Array_def
      createBuffer_def decode_def base64_atob_def strip_padding_def base64_alphabet_def)

lemma transcription_logic_frame [simp]:
  "nextStartTime (transcription_logic m s) = nextStartTime s"
  "started (transcription_logic m s) = started s"
  "transcriptions (transcription_logic m s) = transcriptions s"
  by (simp_all add: transcription_logic_def split: option.splits)

lemma transcription_logic_buffers:
  "currentOutText (transcription_logic m s) = currentOutText s @ out_fragment m"
  "currentInText (transcription_logic m s) = currentInText s @ in_fragment m"
  by (simp_all add: transcription_logic_def out_fragment_def in_fragment_def split: option.splits)

lemma run_updater_frame [simp]:
  "nextStartTime (run_updater now u s) = nextStartTime s"
  "started (run_updater now u s) = started s"
  "currentInText (run_updater now u s) = currentInText s"
  "currentOutText (run_updater now u s) = currentOutText s"
  by (cases "(now, u, s)" rule: run_updater.cases; simp)+

lemma run_updaters_frame [simp]:
  "nextStartTime (run_updaters now us s) = nextStartTime s"
  "started (run_updaters now us s) = started s"
  "currentInText (run_updaters now us s) = currentInText s"
  "currentOutText (run_updaters now us s) = currentOutText s"
  unfolding run_updaters_def
  by (induction us arbitrary: s; simp)+

lemma turn_complete_frame [simp]:
  "nextStartTime (turn_complete mode now m s) = nextStartTime s"
  "started (turn_complete mode now m s) = started s"
  by (simp_all add: turn_complete_def clear_buffers_def Let_def)

lemma turn_complete_skip:
  "\<not> is_turnComplete m \<Longrightarrow> turn_complete mode now m s = s"
  by (simp add: turn_complete_def)

lemma interruption_frame [simp]:
  "started (interruption m s) = started s"
  "currentInText (interruption m s) = currentInText s"
  "currentOutText (interruption m s) = currentOutText s"
  "transcriptions (interruption m s) = transcriptions s"
  by (simp_all add: interruption_def)

lemma audio_playback_frame:
  assumes "audio_playback atob t d s = (s', e)"
  shows "currentInText s' = currentInText s \<and> currentOutText s' = currentOutText s
         \<and> transcriptions s' = transcriptions s"
  using assms by (auto simp: audio_playback_def Let_def split: sum.splits)

lemma onmessage_payload:
  assumes "payload atob m = Some b"
  shows "onmessage mode atob t now m s =
           (interruption m
              ((turn_complete mode now m (transcription_logic m s))
                 \<lparr>started := started s @ [(max (nextStartTime s) t, b)],
                  nextStartTime := max (nextStartTime s) t + duration b\<rparr>), None)"
  using assms
  by (auto simp: payload_def onmessage_def audio_playback_def Let_def
      split: sum.splits option.splits if_splits)

lemma onmessage_buffers:
  "\<not> is_turnComplete m \<Longrightarrow>
     currentOutText (fst (onmessage mode atob t now m s)) = currentOutText s @ out_fragment m"
  "\<not> is_turnComplete m \<Longrightarrow>
     currentInText (fst (onmessage mode atob t now m s)) = currentInText s @ in_fragment m"
  "\<not> is_turnComplete m \<Longrightarrow>
     transcriptions (fst (onmessage mode atob t now m s)) = transcriptions s"
  by (auto simp: onmessage_def Let_def turn_complete_skip transcription_logic_buffers
      split: sum.splits option.splits prod.splits dest!: audio_playback_frame)

lemma run_append: "run mode atob (es @ es') s = run mode atob es' (run mode atob es s)"
  by (induction es arbitrary: s) auto

lemma absent_fields_no_error:
  assumes "audioData m = Inr None"
  shows "snd (onmessage mode atob t now m s) = None"
  using assms by (simp add: onmessage_def Let_def)

lemma flushed_speakers_cong:
  "currentInText s = currentInText s' \<Longrightarrow> currentOutText s = currentOutText s' \<Longrightarrow>
   flushed_speakers s = flushed_speakers s'"
  by (simp add: flushed_speakers_def)

lemma flushed_roles: "map role (flushed mode now s) = flushed_speakers s"
  by (simp add: flushed_def o_def split_beta)

lemma turn_complete_result:
  assumes "is_turnComplete m"
  shows "turn_complete mode now m s
           = s\<lparr>transcriptions := transcriptions s @ flushed mode now s,
               currentInText := [], currentOutText := []\<rparr>"
  using assms
  by (cases mode)
     (simp_all add: turn_complete_def Let_def clear_buffers_def run_updaters_def turn_updaters_def
      flushed_def flushed_speakers_def runs_in_call_def pending_text_def)

lemma turn_complete_signal_result:
  "onmessage mode atob t now turn_complete_signal s
     = (s\<lparr>transcriptions := transcriptions s @ flushed mode now s,
           currentInText := [], currentOutText := []\<rparr>, None)"
proof -
  have tc: "is_turnComplete turn_complete_signal"
    by (simp add: is_turnComplete_def turn_complete_signal_def no_content_def truthy_def)
  show ?thesis
    by (simp add: onmessage_def Let_def turn_complete_result [OF tc])
       (simp add: turn_complete_signal_def no_content_def transcription_logic_def audioData_def
        interruption_def is_interrupted_def truthy_def)
qed

lemma onmessage_text_state:
  "transcriptions (fst (onmessage mode atob t now m s))
     = transcriptions (turn_complete mode now m (transcription_logic m s))
   \<and> currentInText (fst (onmessage mode atob t now m s))
     = currentInText (turn_complete mode now m (transcription_logic m s))
   \<and> currentOutText (fst (onmessage mode atob t now m s))
     = currentOutText (turn_complete mode now m (transcription_logic m s))"
  by (auto simp: onmessage_def Let_def split: sum.splits option.splits prod.splits
      dest!: audio_playback_frame)

lemma turn_complete_message_result:
  assumes "is_turnComplete m"
  shows "transcriptions (fst (onmessage mode atob t now m s))
           = transcriptions s @ flushed mode now (transcription_logic m s)
       \<and> currentInText (fst (onmessage mode atob t now m s)) = []
       \<and> currentOutText (fst (onmessage mode atob t now m s)) = []"
  using onmessage_text_state [of mode atob t now m s]
  by (simp add: turn_complete_result [OF assms])

lemma without_interruption_simps:
  "transcription_logic (without_interruption m) s = transcription_logic m s"
  "turn_complete mode now (without_interruption m) s = turn_complete mode now m s"
  "audioData (without_interruption m) = audioData m"
  "interruption (without_interruption m) s = s"
  by (simp_all add: without_interruption_def transcription_logic_def turn_complete_def
      is_turnComplete_def audioData_def interruption_def is_interrupted_def truthy_def
      split: option.splits)

lemma onmessage_without_interruption:
  assumes "snd (onmessage mode atob t now m s) = None"
  shows "onmessage mode atob t now m s
           = (interruption m (fst (onmessage mode atob t now (without_interruption m) s)), None)"
  using assms
  by (auto simp: onmessage_def Let_def without_interruption_simps
      split: sum.splits option.splits prod.splits if_splits)

lemma run_buffers:
  assumes "\<forall>(t, now, m) \<in> set es. \<not> is_turnComplete m"
  shows "currentOutText (run mode atob es s) = currentOutText s @ out_fragments es
       \<and> currentInText (run mode atob es s) = currentInText s @ in_fragments es
       \<and> transcriptions (run mode atob es s) = transcriptions s"
  using assms
proof (induction es arbitrary: s)
  case Nil
  then show ?case by (simp add: out_fragments_def in_fragments_def)
next
  case (Cons e es)
  obtain t now m where e: "e = (t, now, m)" by (cases e)
  with Cons.prems have m: "\<not> is_turnComplete m" by simp
  from Cons.prems have rest: "\<forall>(t, now, m) \<in> set es. \<not> is_turnComplete m" by simp
  show ?case
    using Cons.IH [OF rest, of "fst (onmessage mode atob t now m s)"] onmessage_buffers [OF m]
    by (simp add: e out_fragments_def in_fragments_def)
qed

lemma duration_nonneg: "0 \<le> duration b"
  by (simp add: duration_def)

lemma audio_playback_started:
  assumes "audio_playback atob t d s = (s', e)"
  shows "\<exists>new. started s' = started s @ new \<and> (\<forall>(st, b) \<in> set new. t \<le> st)"
  using assms by (auto simp: audio_playback_def Let_def split: sum.splits)

lemma onmessage_started:
  "\<exists>new. started (fst (onmessage mode atob t now m s)) = started s @ new
         \<and> (\<forall>(st, b) \<in> set new. t \<le> st)"
proof (cases "audioData m")
  case (Inl e)
  then show ?thesis by (simp add: onmessage_def Let_def)
next
  case (Inr d)
  show ?thesis
  proof (cases "\<exists>base64. d = Some base64 \<and> base64 \<noteq> []")
    case False
    with Inr show ?thesis by (cases d) (auto simp: onmessage_def Let_def)
  next
    case True
    then obtain base64 where d: "d = Some base64" "base64 \<noteq> []" by blast
    obtain s' e where p: "audio_playback atob t base64
        (turn_complete mode now m (transcription_logic m s)) = (s', e)"
      by (cases "audio_playback atob t base64 (turn_complete mode now m (transcription_logic m s))")
    from audio_playback_started [OF p] obtain new where
      new: "started s' = started s @ new" "\<forall>(st, b) \<in> set new. t \<le> st" by auto
    have "started (fst (onmessage mode atob t now m s)) = started s'"
      using Inr d p by (cases e) (simp_all add: onmessage_def Let_def)
    with new show ?thesis by auto
  qed
qed

lemma run_started:
  assumes "\<forall>(t, n, m) \<in> set es. T \<le> t"
  shows "\<exists>new. started (run mode atob es s) = started s @ new \<and> (\<forall>(st, b) \<in> set new. T \<le> st)"
  using assms
proof (induction es arbitrary: s)
  case Nil
  then show ?case by simp
next
  case (Cons e es)
  obtain t now m where e: "e = (t, now, m)" by (cases e)
  from Cons.prems e have t: "T \<le> t" and rest: "\<forall>(t, n, m) \<in> set es. T \<le> t" by auto
  obtain new1 where n1: "started (fst (onmessage mode atob t now m s)) = started s @ new1"
      "\<forall>(st, b) \<in> set new1. t \<le> st"
    using onmessage_started [of mode atob t now m s] by auto
  obtain new2 where n2: "started (run mode atob es (fst (onmessage mode atob t now m s)))
        = started (fst (onmessage mode atob t now m s)) @ new2"
      "\<forall>(st, b) \<in> set new2. T \<le> st"
    using Cons.IH [OF rest, of "fst (onmessage mode atob t now m s)"] by auto
  have "started (run mode atob (e # es) s) = started s @ (new1 @ new2)"
    using n1 n2 e by simp
  moreover have "\<forall>(st, b) \<in> set (new1 @ new2). T \<le> st"
    using n1(2) n2(2) t by fastforce
  ultimately show ?case by blast
qed

lemma interrupted_resets:
  assumes "is_interrupted m" and "snd (onmessage mode atob T now m s) = None"
  shows "nextStartTime (fst (onmessage mode atob T now m s)) = 0"
  using assms
  by (auto simp: onmessage_def Let_def interruption_def split: sum.splits option.splits prod.splits if_splits)

lemma run_payloads_sorted:
  assumes "list_all2 (\<lambda>(t, now, m) b. payload atob m = Some b \<and> \<not> is_interrupted m) es bs"
  shows "\<exists>starts. started (run mode atob es s) = started s @ zip starts bs
           \<and> length starts = length bs \<and> sorted starts
           \<and> (\<forall>x \<in> set starts. nextStartTime s \<le> x)"
  using assms
proof (induction es bs arbitrary: s rule: list_all2_induct)
  case Nil
  then show ?case by simp
next
  case (Cons e es b bs)
  obtain t now m where e: "e = (t, now, m)" by (cases e)
  with Cons.hyps have pm: "payload atob m = Some b" and ni: "\<not> is_interrupted m" by auto
  let ?s1 = "fst (onmessage mode atob t now m s)"
  have s1: "started ?s1 = started s @ [(max (nextStartTime s) t, b)]"
       "nextStartTime ?s1 = max (nextStartTime s) t + duration b"
    using ni by (simp_all add: onmessage_payload [OF pm] interruption_def)
  obtain starts where st: "started (run mode atob es ?s1) = started ?s1 @ zip starts bs"
      "length starts = length bs" "sorted starts" "\<forall>x \<in> set starts. nextStartTime ?s1 \<le> x"
    using Cons.IH [of ?s1] by auto
  have ge: "\<forall>x \<in> set starts. max (nextStartTime s) t \<le> x"
  proof
    fix x assume "x \<in> set starts"
    with st(4) s1(2) have "max (nextStartTime s) t + duration b \<le> x" by simp
    with duration_nonneg [of b] show "max (nextStartTime s) t \<le> x" by linarith
  qed
  have "started (run mode atob (e # es) s)
          = started s @ zip (max (nextStartTime s) t # starts) (b # bs)"
    using st(1) s1(1) e by simp
  moreover have "sorted (max (nextStartTime s) t # starts)" using ge st(3) by simp
  moreover have "\<forall>x \<in> set (max (nextStartTime s) t # starts). nextStartTime s \<le> x"
    using ge by fastforce
  moreover have "length (max (nextStartTime s) t # starts) = length (b # bs)" using st(2) by simp
  ultimately show ?case by blast
qed

lemma run_payloads_on_time:
  assumes "list_all2 (\<lambda>(t, now, m) b. payload atob m = Some b \<and> \<not> is_interrupted m) es bs"
      and "on_time (nextStartTime s) (zip (map fst es) (map duration bs))"
  shows "nextStartTime (run mode atob es s) = nextStartTime s + sum_list (map duration bs)
       \<and> started (run mode atob es s)
           = started s @ zip (contiguous (nextStartTime s) (map duration bs)) bs"
  using assms
proof (induction es bs arbitrary: s rule: list_all2_induct)
  case Nil
  then show ?case by simp
next
  case (Cons e es b bs)
  obtain t now m where e: "e = (t, now, m)" by (cases e)
  with Cons.hyps have pm: "payload atob m = Some b" and ni: "\<not> is_interrupted m" by auto
  from Cons.prems e have le: "t \<le> nextStartTime s"
    and rest: "on_time (nextStartTime s + duration b) (zip (map fst es) (map duration bs))"
    by simp_all
  let ?s1 = "fst (onmessage mode atob t now m s)"
  have s1: "started ?s1 = started s @ [(nextStartTime s, b)]"
       "nextStartTime ?s1 = nextStartTime s + duration b"
    using ni le by (simp_all add: onmessage_payload [OF pm] interruption_def max_def)
  from rest s1(2) have "on_time (nextStartTime ?s1) (zip (map fst es) (map duration bs))" by simp
  from Cons.IH [OF this] show ?case using s1 e by (simp add: add.assoc)
qed

lemma two_frames_message:
  "payload base64_atob (audio_message two_frames) = Some two_frames_buffer"
  "\<not> is_interrupted (audio_message two_frames)"
  "\<not> is_turnComplete (audio_message two_frames)"
  "transcription_logic (audio_message two_frames) s = s"
  by (simp_all add: payload_def audio_message_def audioData_def no_content_def two_frames_payload
      two_frames_buffer_def is_interrupted_def is_turnComplete_def truthy_def transcription_logic_def)
     (simp add: two_frames_def)

lemma two_frames_step:
  "onmessage mode base64_atob t now (audio_message two_frames) s
     = (s\<lparr>started := started s @ [(max (nextStartTime s) t, two_frames_buffer)],
          nextStartTime := max (nextStartTime s) t + 1 / 12000\<rparr>, None)"
  by (simp add: onmessage_payload [OF two_frames_message(1)] two_frames_message interruption_def
      turn_complete_def) (simp add: duration_def two_frames_buffer_def)

subsection \<open>The claims\<close>

text \<open>
  C1, amended. An interruption signal that the handler processes to its end at clock
  time \<open>T\<close> resets the playback cursor to 0, whatever its prior value, and every
  audio payload processed afterwards, at clock readings no earlier than \<open>T\<close>, is started
  at a time \<open>\<ge> T\<close>.
\<close>

theorem interruption_resets_cursor_to_zero:
  assumes "is_interrupted m" and "snd (onmessage mode atob T now m s) = None"
      and "\<forall>(t, n, m') \<in> set es. T \<le> t"
  shows "nextStartTime (fst (onmessage mode atob T now m s)) = 0
       \<and> (\<forall>(st, b) \<in> set (drop (length (started (fst (onmessage mode atob T now m s))))
                               (started (run mode atob es (fst (onmessage mode atob T now m s))))).
            T \<le> st)"
proof -
  obtain new where "started (run mode atob es (fst (onmessage mode atob T now m s)))
        = started (fst (onmessage mode atob T now m s)) @ new" "\<forall>(st, b) \<in> set new. T \<le> st"
    using run_started [OF assms(3), of mode atob "fst (onmessage mode atob T now m s)"] by auto
  then show ?thesis using interrupted_resets [OF assms(1,2)] by simp
qed

theorem interruption_resets_cursor_to_zero_witness:
  "is_interrupted interruption_signal
   \<and> snd (onmessage Synchronous base64_atob 3 (\<lambda>k. 0) interruption_signal
            (idle_router\<lparr>nextStartTime := 5\<rparr>)) = None
   \<and> (3::real) \<le> 4
   \<and> nextStartTime (fst (onmessage Synchronous base64_atob 3 (\<lambda>k. 0) interruption_signal
                            (idle_router\<lparr>nextStartTime := 5\<rparr>))) = 0
   \<and> started (run Synchronous base64_atob [(4, (\<lambda>k. 1), audio_message two_frames)]
                (fst (onmessage Synchronous base64_atob 3 (\<lambda>k. 0) interruption_signal
                        (idle_router\<lparr>nextStartTime := 5\<rparr>))))
       = [(4, two_frames_buffer)]"
  using interruption_resets_cursor_to_zero [of interruption_signal Synchronous base64_atob 3 "\<lambda>k. 0"
      "idle_router\<lparr>nextStartTime := 5\<rparr>" "[(4, (\<lambda>k. 1), audio_message two_frames)]"]
  by (simp add: two_frames_step)
     (simp add: handler_defs interruption_signal_def no_content_def idle_router_def)

text \<open>
  C1 as stated fails: an interruption signal at clock time 3 with the cursor at 5 leaves
  the cursor at 0, not at 3.
\<close>

theorem interruption_resets_to_clock_counterexample:
  "nextStartTime (fst (onmessage Synchronous base64_atob 3 (\<lambda>k. 0) interruption_signal
                        (idle_router\<lparr>nextStartTime := 5\<rparr>))) \<noteq> 3"
  by (simp add: handler_defs interruption_signal_def no_content_def)

text \<open>
  C2. The claim is that a turn-complete signal appends, for each non-empty buffer, an
  entry with the contents of that buffer. The updaters handed to the setter read the
  buffers when React runs them, and the handler clears the buffers right after the
  setter calls: with text pending for both speakers, the assistant's entry has the empty
  text when only the first updater runs inside its call, and both entries have it when
  both updaters run in the next render. The entries carry the contents only when every
  updater runs inside its call.
\<close>

theorem turn_complete_entries_lose_text:
  "onmessage mode atob t now turn_complete_signal s
     = (s\<lparr>transcriptions := transcriptions s @ flushed mode now s,
           currentInText := [], currentOutText := []\<rparr>, None)
   \<and> transcriptions (fst (onmessage EagerFirst atob t now turn_complete_signal both_pending))
       = [\<lparr>entry_text = ''hi'', role = user, timestamp = now 0\<rparr>,
          \<lparr>entry_text = [], role = assistant, timestamp = now 1\<rparr>]
   \<and> transcriptions (fst (onmessage Batched atob t now turn_complete_signal both_pending))
       = [\<lparr>entry_text = [], role = user, timestamp = now 0\<rparr>,
          \<lparr>entry_text = [], role = assistant, timestamp = now 1\<rparr>]
   \<and> transcriptions (fst (onmessage Synchronous atob t now turn_complete_signal both_pending))
       = [\<lparr>entry_text = ''hi'', role = user, timestamp = now 0\<rparr>,
          \<lparr>entry_text = ''yo'', role = assistant, timestamp = now 1\<rparr>]"
  by (simp add: turn_complete_signal_result)
     (simp add: flushed_def flushed_speakers_def runs_in_call_def pending_text_def both_pending_def
      idle_router_def)

text \<open>
  C3, amended. For every sequence of inline audio payloads with no interruption, the
  start times are non-decreasing. They are exactly contiguous from the clock time \<open>t0\<close>
  of the first arrival, and the cursor ends at \<open>t0\<close> plus the sum of the buffer
  durations, when the cursor is not ahead of the clock at the first arrival and every
  later payload arrives no later than the cursor then stands.
\<close>

theorem playback_contiguous_when_on_time:
  assumes "list_all2 (\<lambda>(t, now, m) b. payload atob m = Some b \<and> \<not> is_interrupted m)
             ((t0, now0, m0) # es) (b0 # bs)"
  shows "sorted (map fst (drop (length (started s))
                   (started (run mode atob ((t0, now0, m0) # es) s))))
       \<and> (nextStartTime s \<le> t0
            \<and> on_time (t0 + duration b0) (zip (map fst es) (map duration bs))
          \<longrightarrow> nextStartTime (run mode atob ((t0, now0, m0) # es) s)
                = t0 + sum_list (map duration (b0 # bs))
              \<and> started (run mode atob ((t0, now0, m0) # es) s)
                = started s @ zip (contiguous t0 (map duration (b0 # bs))) (b0 # bs))"
proof -
  obtain starts where st: "started (run mode atob ((t0, now0, m0) # es) s)
        = started s @ zip starts (b0 # bs)" "length starts = length (b0 # bs)" "sorted starts"
    using run_payloads_sorted [OF assms, of mode s] by auto
  then have mono: "sorted (map fst (drop (length (started s))
                   (started (run mode atob ((t0, now0, m0) # es) s))))"
    by simp
  have cont: "nextStartTime (run mode atob ((t0, now0, m0) # es) s)
                = t0 + sum_list (map duration (b0 # bs))
              \<and> started (run mode atob ((t0, now0, m0) # es) s)
                = started s @ zip (contiguous t0 (map duration (b0 # bs))) (b0 # bs)"
    if le: "nextStartTime s \<le> t0"
      and ot: "on_time (t0 + duration b0) (zip (map fst es) (map duration bs))"
  proof -
    from assms have pm: "payload atob m0 = Some b0" and ni: "\<not> is_interrupted m0"
      and rest: "list_all2 (\<lambda>(t, now, m) b. payload atob m = Some b \<and> \<not> is_interrupted m) es bs"
      by simp_all
    let ?s1 = "fst (onmessage mode atob t0 now0 m0 s)"
    have s1: "started ?s1 = started s @ [(t0, b0)]" "nextStartTime ?s1 = t0 + duration b0"
      using ni le by (simp_all add: onmessage_payload [OF pm] interruption_def max_def)
    from ot s1(2) have "on_time (nextStartTime ?s1) (zip (map fst es) (map duration bs))" by simp
    from run_payloads_on_time [OF rest this, of mode] show ?thesis
      using s1 by (simp add: add.assoc)
  qed
  from mono cont show ?thesis by blast
qed

theorem playback_contiguous_when_on_time_witness:
  "list_all2 (\<lambda>(t, now, m) b. payload base64_atob m = Some b \<and> \<not> is_interrupted m)
     [(2, (\<lambda>k. 0), audio_message two_frames), (2, (\<lambda>k. 1), audio_message two_frames)]
     [two_frames_buffer, two_frames_buffer]
   \<and> nextStartTime (idle_router\<lparr>nextStartTime := 1\<rparr>) \<le> 2
   \<and> on_time (2 + duration two_frames_buffer)
        (zip (map fst [(2::real, (\<lambda>k. 1) :: date_now, audio_message two_frames)]) (map duration [two_frames_buffer]))
   \<and> nextStartTime (run Synchronous base64_atob
        [(2, (\<lambda>k. 0), audio_message two_frames), (2, (\<lambda>k. 1), audio_message two_frames)]
        (idle_router\<lparr>nextStartTime := 1\<rparr>)) = 2 + 1 / 6000
   \<and> started (run Synchronous base64_atob
        [(2, (\<lambda>k. 0), audio_message two_frames), (2, (\<lambda>k. 1), audio_message two_frames)]
        (idle_router\<lparr>nextStartTime := 1\<rparr>))
      = [(2, two_frames_buffer), (2 + 1 / 12000, two_frames_buffer)]"
  using playback_contiguous_when_on_time [of base64_atob 2 "\<lambda>k. 0" "audio_message two_frames"
      "[(2, (\<lambda>k. 1), audio_message two_frames)]" two_frames_buffer "[two_frames_buffer]"
      "idle_router\<lparr>nextStartTime := 1\<rparr>" Synchronous]
  by (simp add: two_frames_message)
     (simp add: idle_router_def duration_def two_frames_buffer_def)

text \<open>
  C3 as stated fails: two payloads of \<open>1 / 12000\<close> seconds arriving at clock times 0 and
  5 are started at 0 and at 5, and the cursor ends at \<open>5 + 1 / 12000\<close>.
\<close>

theorem cursor_is_first_arrival_plus_durations_counterexample:
  "payload base64_atob (audio_message two_frames) = Some two_frames_buffer
   \<and> nextStartTime (run Synchronous base64_atob
        [(0, (\<lambda>k. 0), audio_message two_frames), (5, (\<lambda>k. 1), audio_message two_frames)] idle_router)
      \<noteq> 0 + sum_list (map duration [two_frames_buffer, two_frames_buffer])
   \<and> map fst (started (run Synchronous base64_atob
        [(0, (\<lambda>k. 0), audio_message two_frames), (5, (\<lambda>k. 1), audio_message two_frames)] idle_router))
      = [0, 5]"
  by (simp add: two_frames_message two_frames_step)
     (simp add: idle_router_def duration_def two_frames_buffer_def)

text \<open>
  C4, amended. Before a turn-complete signal, each message appends one fragment at most:
  its output transcription to the assistant's buffer when it has one, otherwise its input
  transcription to the user's buffer; the input transcription of a message that carries
  both is dropped. When the turn-complete signal arrives, each buffer is the
  concatenation, in arrival order, of the fragments appended to it, and no entry was
  added meanwhile; the signal adds an entry for exactly the speakers whose buffer is not
  empty, the user's first, and clears both buffers, in every setter mode.
\<close>

theorem fragments_concatenate_in_arrival_order:
  assumes "\<forall>(t, now, m) \<in> set es. \<not> is_turnComplete m"
  shows "currentOutText (run mode atob es s) = currentOutText s @ out_fragments es
       \<and> currentInText (run mode atob es s) = currentInText s @ in_fragments es
       \<and> transcriptions (run mode atob es s) = transcriptions s
       \<and> map role (transcriptions (run mode atob (es @ [(t, now, turn_complete_signal)]) s))
           = map role (transcriptions s)
             @ flushed_speakers (s\<lparr>currentOutText := currentOutText s @ out_fragments es,
                                    currentInText := currentInText s @ in_fragments es\<rparr>)
       \<and> currentOutText (run mode atob (es @ [(t, now, turn_complete_signal)]) s) = []
       \<and> currentInText (run mode atob (es @ [(t, now, turn_complete_signal)]) s) = []"
proof -
  have before: "currentOutText (run mode atob es s) = currentOutText s @ out_fragments es
       \<and> currentInText (run mode atob es s) = currentInText s @ in_fragments es
       \<and> transcriptions (run mode atob es s) = transcriptions s"
    by (rule run_buffers [OF assms])
  have "flushed_speakers (run mode atob es s)
          = flushed_speakers (s\<lparr>currentOutText := currentOutText s @ out_fragments es,
                                 currentInText := currentInText s @ in_fragments es\<rparr>)"
    by (rule flushed_speakers_cong) (simp_all add: before)
  then have "map role (transcriptions (run mode atob (es @ [(t, now, turn_complete_signal)]) s))
           = map role (transcriptions s)
             @ flushed_speakers (s\<lparr>currentOutText := currentOutText s @ out_fragments es,
                                    currentInText := currentInText s @ in_fragments es\<rparr>)
       \<and> currentOutText (run mode atob (es @ [(t, now, turn_complete_signal)]) s) = []
       \<and> currentInText (run mode atob (es @ [(t, now, turn_complete_signal)]) s) = []"
    by (simp add: run_append turn_complete_signal_result flushed_roles before)
  with before show ?thesis by simp
qed

theorem fragments_concatenate_in_arrival_order_witness:
  "\<not> is_turnComplete (output_fragment ''Hello'') \<and> \<not> is_turnComplete (input_fragment ''Hi'')
   \<and> \<not> is_turnComplete (output_fragment '' there'')
   \<and> currentOutText (run EagerFirst base64_atob
        [(0, (\<lambda>k. 0), output_fragment ''Hello''), (0, (\<lambda>k. 1), input_fragment ''Hi''),
         (0, (\<lambda>k. 2), output_fragment '' there'')] idle_router) = ''Hello there''
   \<and> currentInText (run EagerFirst base64_atob
        [(0, (\<lambda>k. 0), output_fragment ''Hello''), (0, (\<lambda>k. 1), input_fragment ''Hi''),
         (0, (\<lambda>k. 2), output_fragment '' there'')] idle_router) = ''Hi''
   \<and> map role (transcriptions (run EagerFirst base64_atob
        ([(0, (\<lambda>k. 0), output_fragment ''Hello''), (0, (\<lambda>k. 1), input_fragment ''Hi''),
          (0, (\<lambda>k. 2), output_fragment '' there'')] @ [(0, (\<lambda>k. 3), turn_complete_signal)])
        idle_router))
      = [user, assistant]"
  using fragments_concatenate_in_arrival_order [of
      "[(0, (\<lambda>k. 0), output_fragment ''Hello''), (0, (\<lambda>k. 1), input_fragment ''Hi''),
        (0, (\<lambda>k. 2), output_fragment '' there'')]" EagerFirst base64_atob idle_router 0 "\<lambda>k. 3"]
  by (simp add: is_turnComplete_def output_fragment_def input_fragment_def no_content_def truthy_def
      out_fragments_def in_fragments_def out_fragment_def in_fragment_def js_string_def
      flushed_speakers_def idle_router_def)

text \<open>
  C4 as stated fails: a message carrying the input transcription \<open>hi\<close> and the output
  transcription \<open>yo\<close> appends \<open>yo\<close> to the assistant's buffer and nothing to the
  user's, and the turn-complete signal that follows adds one entry, the assistant's.
\<close>

theorem both_transcriptions_counterexample:
  "onmessage EagerFirst base64_atob 0 (\<lambda>k. 0) (both_fragments ''hi'' ''yo'') idle_router
     = (idle_router\<lparr>currentOutText := ''yo''\<rparr>, None)
   \<and> map role (transcriptions (run EagerFirst base64_atob
        [(0, (\<lambda>k. 0), both_fragments ''hi'' ''yo''), (0, (\<lambda>k. 1), turn_complete_signal)]
        idle_router))
      = [assistant]"
  by (simp add: turn_complete_signal_result flushed_roles flushed_speakers_def)
     (simp add: handler_defs both_fragments_def no_content_def idle_router_def js_string_def)

text \<open>
  C8. The claim is that a missing field, \<open>parts\<close> among them, never makes the handler
  raise an error. On a message whose model turn has no \<open>parts\<close> the handler throws a
  \<open>TypeError\<close> at the read of \<open>parts[0]\<close>, and the interruption the same message
  signals is not processed: the state is left as it was.
\<close>

theorem missing_parts_throws:
  "onmessage mode atob t now model_turn_without_parts s = (s, Some TypeError)"
  by (simp add: handler_defs model_turn_without_parts_def no_content_def)

text \<open>
  C10. An interruption signal modifies only the playback cursor: the two pending text
  buffers, the transcript and every buffer source already started on the output clock
  are left as they were, whatever the mode of the state setter, the clock reading and
  the prior state. A message that signals an interruption besides other content, and is
  handled to its end, leaves the state the same message without the signal leaves, but
  for the cursor.
\<close>

theorem interruption_changes_cursor_only:
  "onmessage mode atob currentTime now interruption_signal s = (s\<lparr>nextStartTime := 0\<rparr>, None)
   \<and> (is_interrupted m \<and> snd (onmessage mode atob currentTime now m s) = None \<longrightarrow>
        onmessage mode atob currentTime now m s
          = ((fst (onmessage mode atob currentTime now (without_interruption m) s))
               \<lparr>nextStartTime := 0\<rparr>, None))"
proof -
  have signal: "onmessage mode atob currentTime now interruption_signal s
                  = (s\<lparr>nextStartTime := 0\<rparr>, None)"
    by (simp add: onmessage_def interruption_signal_def no_content_def transcription_logic_def
        turn_complete_def is_turnComplete_def truthy_def audioData_def interruption_def
        is_interrupted_def)
  have "onmessage mode atob currentTime now m s
          = ((fst (onmessage mode atob currentTime now (without_interruption m) s))
               \<lparr>nextStartTime := 0\<rparr>, None)"
    if "is_interrupted m" and "snd (onmessage mode atob currentTime now m s) = None"
    using onmessage_without_interruption [OF that(2)] that(1) by (simp add: interruption_def)
  with signal show ?thesis by blast
qed

theorem interruption_changes_cursor_only_witness:
  "is_interrupted payload_with_interruption
   \<and> without_interruption payload_with_interruption = audio_message two_frames
   \<and> onmessage Synchronous base64_atob 2 (\<lambda>k. 0) payload_with_interruption idle_router
       = (idle_router\<lparr>started := [(2, two_frames_buffer)], nextStartTime := 0\<rparr>, None)"
proof -
  have w: "without_interruption payload_with_interruption = audio_message two_frames"
    by (simp add: without_interruption_def payload_with_interruption_def audio_message_def
        no_content_def)
  have i: "is_interrupted payload_with_interruption"
    by (simp add: is_interrupted_def payload_with_interruption_def no_content_def truthy_def)
  have p: "payload base64_atob payload_with_interruption = Some two_frames_buffer"
    using two_frames_message(1)
    by (simp add: payload_def audioData_def payload_with_interruption_def audio_message_def
        no_content_def)
  have n: "snd (onmessage Synchronous base64_atob 2 (\<lambda>k. 0) payload_with_interruption idle_router) = None"
    by (simp add: onmessage_payload [OF p])
  show ?thesis
    using interruption_changes_cursor_only [of Synchronous base64_atob 2 "\<lambda>k. 0" idle_router
        payload_with_interruption] i n w
    by (simp add: two_frames_step idle_router_def)
qed

section \<open>Properties of the capture pipeline and the session lifecycle\<close>

subsection \<open>Auxiliary facts\<close>

lemma pack_unpack_word:
  "ucast (ucast w :: byte) + 256 * ucast (ucast (drop_bit 8 w) :: byte) = (w :: int16)"
proof -
  have "unat (ucast (ucast w :: byte) + 256 * ucast (ucast (drop_bit 8 w) :: byte) :: int16) = unat w"
  proof -
    have lt: "unat w < 65536" using unsigned_less [of w, where 'a = nat] by simp
    have a: "unat (ucast (ucast w :: byte) :: int16) = unat w mod 256"
      by (simp add: unsigned_ucast_eq take_bit_eq_mod unat_mod)
    have b: "unat (ucast (ucast (drop_bit 8 w) :: byte) :: int16) = unat w div 256"
      using lt by (simp add: unsigned_ucast_eq take_bit_eq_mod unat_drop_bit_eq drop_bit_eq_div unat_mod unat_div)
    have "unat w mod 256 + 256 * (unat w div 256) < 65536" using lt by simp
    then show ?thesis
      using a b lt by (simp add: unat_word_ariths)
  qed
  then show ?thesis by (simp add: word_unat_eq_iff)
qed

lemma sint_ToInt16:
  "sint (ToInt16 y) = (js_trunc y + 32768) mod 65536 - 32768"
  by (simp add: ToInt16_def sint_sbintrunc' signed_take_bit_eq_take_bit_shift take_bit_eq_mod)

lemma js_trunc_range:
  assumes "- 1 \<le> x" "x < 1"
  shows "- 32768 \<le> js_trunc (x * 32768) \<and> js_trunc (x * 32768) < 32768"
  using assms by (simp add: js_trunc_def)

lemma sint_ToInt16_in_range:
  assumes "- 1 \<le> x" "x < 1"
  shows "sint (ToInt16 (x * 32768)) = js_trunc (x * 32768)"
  using js_trunc_range [OF assms]
  by (simp add: ToInt16_def sint_sbintrunc' signed_take_bit_int_eq_self)

lemma int16_view_uint8_view: "int16_view (uint8_view ws) = ws"
  by (induction ws) (simp_all add: pack_unpack_word)

lemma length_uint8_view: "length (uint8_view ws) = 2 * length ws"
  by (induction ws) simp_all

lemmas lifecycle_defs = idle_def startSession_def stopSession_def getUserMedia_resolved_def
  startSession_catch_def onopen_def sessionPromise_resolved_def sendRealtimeInput_def
  onaudioprocess_def frame_tick_def onclose_def onerror_def phase_of_def release_def

lemma two_samples_blob:
  "pcmBlob base64_btoa two_samples
     = \<lparr>media_data = ''AAEC/w=='', mimeType = ''audio/pcm;rate=16000''\<rparr>"
  apply (simp add: pcmBlob_def encode_def ToInt16_def js_trunc_def two_samples_def)
  apply (simp add: base64_btoa_def base64_alphabet_def)
  done

lemma stopSession_idle: "stopSession idle = idle"
  by (simp add: lifecycle_defs)

lemma stopSession_state:
  "\<not> isActive (stopSession s) \<and> \<not> isConnecting (stopSession s) \<and> sessionRef (stopSession s) = None
   \<and> streamRef (stopSession s) = streamRef s
   \<and> frameIntervalRef (stopSession s) = frameIntervalRef s
   \<and> audioContextInRef (stopSession s) = audioContextInRef s
   \<and> audioContextOutRef (stopSession s) = audioContextOutRef s
   \<and> phases (stopSession s) = phases s \<and> queued (stopSession s) = queued s"
  by (simp add: stopSession_def)

lemma stopSession_twice:
  "effects (stopSession (stopSession s))
     = effects (stopSession s)
       @ release (streamRef s) StopTracks
       @ release (if frameIntervalRef s = Some 0 then None else frameIntervalRef s) ClearInterval
       @ release (audioContextInRef s) CloseContext
       @ release (audioContextOutRef s) CloseContext"
  by (simp add: stopSession_def release_def)

subsection \<open>The claims\<close>

text \<open>
  C5. The claim is that a repeated \<open>stop()\<close> releases nothing a second time. After a
  session was started and opened, the second of two calls of \<open>stopSession\<close> stops the
  tracks, clears the timer and closes both audio contexts again, since only the session
  handle is cleared by the first call; closing the two contexts again is rejected.
\<close>

theorem repeated_stop_releases_again:
  "feasible btoa started_and_stopped_twice idle
   \<and> effects (exec btoa started_and_stopped_twice idle)
       = [GetUserMedia 0, Connect 0, SetInterval 1,
          CloseChannel 0, StopTracks 0, ClearInterval 1, CloseContext (Input 0),
          CloseContext (Output 0),
          StopTracks 0, ClearInterval 1, CloseContext (Input 0), CloseContext (Output 0)]
   \<and> rejected_closes [] (effects (exec btoa started_and_stopped_twice idle))
       = [Input 0, Output 0]"
  by (simp add: started_and_stopped_twice_def lifecycle_defs)

text \<open>
  C6, amended. \<open>stop()\<close> clears the session handle and the two flags, and cancels no
  outstanding request; the completion callbacks have no guard. After \<open>stop()\<close>, a device
  grant still stores the stream and opens the channel, an open callback still marks the
  session active and starts the video timer, and a channel-open completion still stores
  the channel in the session handle and sends the media queued for it.
\<close>

theorem completions_are_unguarded:
  "sessionRef (stopSession s) = None \<and> \<not> isActive (stopSession s) \<and> \<not> isConnecting (stopSession s)
   \<and> streamRef (step btoa (MediaGranted k) (stopSession s)) = Some k
   \<and> effects (step btoa (MediaGranted k) (stopSession s)) = effects (stopSession s) @ [Connect k]
   \<and> isActive (step btoa (ChannelOpen k) (stopSession s))
   \<and> effects (step btoa (ChannelOpen k) (stopSession s))
       = effects (stopSession s) @ [SetInterval (Suc k)]
   \<and> sessionRef (step btoa (ConnectResolved k) (stopSession s)) = Some k
   \<and> effects (step btoa (ConnectResolved k) (stopSession s))
       = effects (stopSession s)
         @ map (\<lambda>(j, m). SendRealtimeInput j m) (filter (\<lambda>(j, m). j = k) (queued s))"
  by (simp add: stopSession_def getUserMedia_resolved_def onopen_def sessionPromise_resolved_def)

text \<open>
  C6 as stated fails: \<open>stop()\<close> while the device request is outstanding, then the grant,
  the open callback, the resolved session promise and one captured audio block; the
  session handle holds the late channel, the session is active and the block was sent.
\<close>

theorem late_completions_counterexample:
  "feasible base64_btoa stopped_while_requesting idle
   \<and> sessionRef (exec base64_btoa stopped_while_requesting idle) = Some 0
   \<and> isActive (exec base64_btoa stopped_while_requesting idle)
   \<and> effects (exec base64_btoa stopped_while_requesting idle)
       = [GetUserMedia 0, Connect 0, SetInterval 1,
          SendRealtimeInput 0 \<lparr>media_data = ''AAEC/w=='', mimeType = ''audio/pcm;rate=16000''\<rparr>]"
  by (simp add: stopped_while_requesting_def lifecycle_defs two_samples_blob)

text \<open>
  C7, amended. \<open>startSession\<close> has no guard on the lifecycle state: in every state it
  sets the connecting flag, replaces the transcript by the connecting entry and requests
  the devices again, and the grant that follows overwrites the stream ref and opens a
  further channel without releasing anything. The guard is in the view alone: the start
  control is rendered only while the session is neither active nor connecting.
\<close>

theorem start_is_not_guarded:
  "isConnecting (startSession now s)
   \<and> isActive (startSession now s) = isActive s
   \<and> transcriptions (startSession now s)
       = [\<lparr>entry_text = ''Connecting to AI Interviewer...'', role = assistant, timestamp = now\<rparr>]
   \<and> phases (startSession now s) = phases s @ [AwaitingDevices]
   \<and> effects (startSession now s) = effects s @ [GetUserMedia (length (phases s))]
   \<and> effects (exec btoa [StartSession now, MediaGranted (length (phases s))] s)
       = effects s @ [GetUserMedia (length (phases s)), Connect (length (phases s))]
   \<and> streamRef (exec btoa [StartSession now, MediaGranted (length (phases s))] s)
       = Some (length (phases s))
   \<and> start_button_shown s = (\<not> isActive s \<and> \<not> isConnecting s)"
  by (simp add: startSession_def getUserMedia_resolved_def start_button_shown_def)

text \<open>
  C7 as stated fails: a second \<open>startSession\<close> while the first is connecting requests
  the devices a second time, and both calls run to a live session: two streams, two
  channels, two timers, none released.
\<close>

theorem start_while_connecting_counterexample:
  "isConnecting (exec base64_btoa [StartSession 0] idle)
   \<and> feasible base64_btoa started_twice idle
   \<and> phases (exec base64_btoa started_twice idle) = [Live, Live]
   \<and> effects (exec base64_btoa started_twice idle)
       = [GetUserMedia 0, GetUserMedia 1, Connect 0, Connect 1, SetInterval 1, SetInterval 2]"
  by (simp add: started_twice_def lifecycle_defs)

text \<open>
  C9, amended. For every captured audio block, each sample is scaled by 32768, truncated
  towards zero and wrapped to a signed 16-bit integer with no clamping (inside
  \<open>[-1, 1)\<close> the result is the truncated product), the block is packed into two bytes
  per sample, low byte first, encoded, and submitted to the channel of a resolved session
  tagged \<open>audio/pcm;rate=16000\<close>.
\<close>

theorem capture_block_is_sent_as_pcm:
  "mimeType (pcmBlob btoa inputData) = ''audio/pcm;rate=16000''
   \<and> media_data (pcmBlob btoa inputData)
       = encode btoa (uint8_view (map (\<lambda>x. ToInt16 (x * 32768)) inputData))
   \<and> length (uint8_view (map (\<lambda>x. ToInt16 (x * 32768)) inputData)) = 2 * length inputData
   \<and> int16_view (uint8_view (map (\<lambda>x. ToInt16 (x * 32768)) inputData))
       = map (\<lambda>x. ToInt16 (x * 32768)) inputData
   \<and> sint (ToInt16 (x * 32768)) = (js_trunc (x * 32768) + 32768) mod 65536 - 32768
   \<and> (- 1 \<le> x \<and> x < 1 \<longrightarrow> sint (ToInt16 (x * 32768)) = js_trunc (x * 32768))
   \<and> (phase_of s k = Some Live \<longrightarrow>
        effects (step btoa (AudioProcess k inputData) s)
          = effects s @ [SendRealtimeInput k (pcmBlob btoa inputData)])"
  using sint_ToInt16_in_range [of x]
  by (simp add: pcmBlob_def int16_view_uint8_view length_uint8_view sint_ToInt16
      onaudioprocess_def sendRealtimeInput_def)

theorem capture_block_is_sent_as_pcm_witness:
  "sint (ToInt16 (1 / 2 * 32768)) = 16384
   \<and> sint (ToInt16 (1 * 32768)) = - 32768
   \<and> phase_of (exec base64_btoa [StartSession 0, MediaGranted 0, ChannelOpen 0, ConnectResolved 0] idle) 0
       = Some Live
   \<and> effects (exec base64_btoa one_block_captured idle)
       = [GetUserMedia 0, Connect 0, SetInterval 1,
          SendRealtimeInput 0 \<lparr>media_data = ''AAEC/w=='', mimeType = ''audio/pcm;rate=16000''\<rparr>]"
  using capture_block_is_sent_as_pcm [of base64_btoa "two_samples" "1 / 2"
      "exec base64_btoa [StartSession 0, MediaGranted 0, ChannelOpen 0, ConnectResolved 0] idle" 0]
    capture_block_is_sent_as_pcm [of base64_btoa "[]" 1 idle 0]
  by (simp add: one_block_captured_def two_samples_blob js_trunc_def)
     (simp add: lifecycle_defs)

text \<open>
  C9 as stated fails: the block sent for two captured samples carries the tag
  \<open>audio/pcm;rate=16000\<close>, not \<open>audio/pcm16;rate=16000\<close>.
\<close>

theorem audio_tag_counterexample:
  "feasible base64_btoa one_block_captured idle
   \<and> effects (exec base64_btoa one_block_captured idle)
       = [GetUserMedia 0, Connect 0, SetInterval 1,
          SendRealtimeInput 0 \<lparr>media_data = ''AAEC/w=='', mimeType = ''audio/pcm;rate=16000''\<rparr>]
   \<and> mimeType (pcmBlob base64_btoa two_samples) \<noteq> ''audio/pcm16;rate=16000''"
  by (simp add: one_block_captured_def lifecycle_defs two_samples_blob)

end
